theory Spec2Isabelle
  imports Main "HOL-Library.Word"
begin

section \<open>hypopg.c: the hook layer of HypoPG\<close>

text \<open>
  The embedding follows \<^verbatim>\<open>hypopg.c\<close> function by function. The file installs the
  partitioning hooks unconditionally, whose types exist from PostgreSQL 10 on, so the
  branches of \<^verbatim>\<open>#if PG_VERSION_NUM >= 100000\<close> and \<^verbatim>\<open>>= 90300\<close> are the ones
  modelled.
\<close>

subsection \<open>Errors and programs over a state\<close>

text \<open>
  \<^verbatim>\<open>ereport(ERROR, ...)\<close> leaves the current function by a long jump: the result is
  lost, the memory written so far is not. A program therefore returns the memory it
  leaves behind together with either the error or its value.
\<close>

datatype error = ERROR string

type_synonym ('a, 's) prog = "'s \<Rightarrow> (error + 'a) \<times> 's"

definition ret :: "'a \<Rightarrow> ('a, 's) prog" where
  "ret x = (\<lambda>s. (Inr x, s))"

definition raise :: "error \<Rightarrow> ('a, 's) prog" where
  "raise e = (\<lambda>s. (Inl e, s))"

definition bnd :: "('a, 's) prog \<Rightarrow> ('a \<Rightarrow> ('b, 's) prog) \<Rightarrow> ('b, 's) prog" where
  "bnd m f = (\<lambda>s. case m s of (Inl e, s') \<Rightarrow> (Inl e, s') | (Inr x, s') \<Rightarrow> f x s')"

definition seq :: "(unit, 's) prog \<Rightarrow> ('b, 's) prog \<Rightarrow> ('b, 's) prog" where
  "seq m k = bnd m (\<lambda>_. k)"

subsection \<open>Parse nodes seen by the explain detector\<close>

type_synonym Oid = "32 word"

type_synonym ptr = nat

text \<open>
  \<open>defname\<close> is the C string of the option's name; \<^verbatim>\<open>strcmp(a, b) == 0\<close> is
  equality of the two strings.
\<close>

record DefElem =
  defname :: string

datatype Node =
    T_ExplainStmt "DefElem list"
  | T_Other string

record PlannedStmt =
  utilityStmt :: "Node option"

text \<open>The \<^verbatim>\<open>foreach\<close> over the options of an \<^verbatim>\<open>ExplainStmt\<close>, with the
  \<^verbatim>\<open>return true\<close> that follows it.\<close>

fun hypo_query_walker_options :: "DefElem list \<Rightarrow> bool" where
  "hypo_query_walker_options [] = True"
| "hypo_query_walker_options (opt # rest) =
     (if defname opt = ''analyze'' then False else hypo_query_walker_options rest)"

definition hypo_query_walker :: "PlannedStmt option \<Rightarrow> bool" where
  "hypo_query_walker parsetree =
     (case parsetree of
        None \<Rightarrow> False
      | Some pstmt \<Rightarrow>
          (case utilityStmt pstmt of
             None \<Rightarrow> False
           | Some node \<Rightarrow>
               (case node of
                  T_ExplainStmt opts \<Rightarrow> hypo_query_walker_options opts
                | T_Other tag \<Rightarrow> False)))"

subsection \<open>Host and registry data read by the hooks\<close>

definition RELKIND_RELATION :: char where
  "RELKIND_RELATION = CHR ''r''"

definition RELKIND_MATVIEW :: char where
  "RELKIND_MATVIEW = CHR ''m''"

type_synonym LOCKMODE = nat

definition AccessShareLock :: LOCKMODE where
  "AccessShareLock = 1"

record Form_pg_class =
  relkind :: char
  reltablespace :: Oid
  relpersistence :: char

record RelationData =
  rd_id :: Oid
  rd_rel :: Form_pg_class

text \<open>The two fields of a range-table entry that the hooks read, \<^verbatim>\<open>rte->relid\<close> and
  \<^verbatim>\<open>rte->relkind\<close>.\<close>

record RangeTblEntry =
  rte_relid :: Oid
  rte_relkind :: char

record PartitionKeyData =
  strategy :: char
  partattrs :: "nat list"

type_synonym PartitionKey = "PartitionKeyData option"

record PartitionDescData =
  nparts :: nat
  oids :: "Oid list"

type_synonym PartitionDesc = "PartitionDescData option"

text \<open>
  Modelled from the spec: the struct \<^verbatim>\<open>hypoIndex\<close> is declared in
  \<^verbatim>\<open>include/hypopg_index.h\<close>, which is not part of the sources at hand. An entry has
  a synthetic identifier and the identifier of its owning table; the hooks read only
  \<^verbatim>\<open>entry->relid\<close>.
\<close>

record hypoIndex =
  oid :: Oid
  relid :: Oid

text \<open>
  Modelled from the spec: the struct \<^verbatim>\<open>hypoTable\<close> is declared in
  \<^verbatim>\<open>include/hypopg_table.h\<close>, which is not part of the sources at hand. An entry has
  a synthetic identifier, a link to its parent and a partition key; the hooks read only
  \<^verbatim>\<open>table->partkey\<close>.
\<close>

record hypoTable =
  hypoTable_oid :: Oid
  parentid :: Oid
  partkey :: PartitionKey

datatype MemoryContext = AllocSetContext string string

subsection \<open>The process memory\<close>

text \<open>
  A function pointer is the address of one of the eleven handlers of this file, or of a
  function of the host or of another extension.
\<close>

datatype fnptr =
    addr_hypo_utility_hook
  | addr_hypo_executorEnd_hook
  | addr_hypo_get_relation_info_hook
  | addr_hypo_explain_get_index_name_hook
  | addr_hypo_set_rel_pathlist_hook
  | addr_hypo_RelationGetPartitionDesc_hook
  | addr_hypo_RelationGetPartitionKey_hook
  | addr_hypo_skip_has_subclass_hook
  | addr_hypo_find_all_inheritors_hook
  | addr_hypo_expand_child_rtentry_hook
  | addr_hypo_build_child_rtentry_hook
  | addr_other nat

text \<open>
  The global variables the file reads and writes: the host's eleven hook variables, the
  eleven saved handlers, the two flags, the memory context and the two registries.
  \<open>memory\<close> is everything else in the process (planner structures, catalog, locks),
  which only the host and the injection routines touch. \<open>None\<close> is \<^verbatim>\<open>NULL\<close>,
  \<open>[]\<close> is \<^verbatim>\<open>NIL\<close>.
\<close>

record 'w backend =
  ProcessUtility_hook :: "fnptr option"
  ExecutorEnd_hook :: "fnptr option"
  get_relation_info_hook :: "fnptr option"
  explain_get_index_name_hook :: "fnptr option"
  set_rel_pathlist_hook :: "fnptr option"
  RelationGetPartitionDesc_hook :: "fnptr option"
  RelationGetPartitionKey_hook :: "fnptr option"
  skip_has_subclass_hook :: "fnptr option"
  find_all_inheritors_hook :: "fnptr option"
  expand_child_rtentry_hook :: "fnptr option"
  build_child_rtentry_hook :: "fnptr option"
  prev_utility_hook :: "fnptr option"
  prev_ExecutorEnd_hook :: "fnptr option"
  prev_get_relation_info_hook :: "fnptr option"
  prev_explain_get_index_name_hook :: "fnptr option"
  prev_set_rel_pathlist_hook :: "fnptr option"
  prev_RelationGetPartitionDesc_hook :: "fnptr option"
  prev_RelationGetPartitionKey_hook :: "fnptr option"
  prev_skip_has_subclass_hook :: "fnptr option"
  prev_find_all_inheritors_hook :: "fnptr option"
  prev_expand_child_rtentry_hook :: "fnptr option"
  prev_build_child_rtentry_hook :: "fnptr option"
  isExplain :: bool
  hypo_is_enabled :: bool
  HypoMemoryContext :: "MemoryContext option"
  hypoIndexes :: "hypoIndex list"
  hypoTables :: "hypoTable list"
  memory :: 'w

definition on_memory :: "('a, 'w) prog \<Rightarrow> ('a, 'w backend) prog" where
  "on_memory m = (\<lambda>s. case m (memory s) of (r, w) \<Rightarrow> (r, s\<lparr>memory := w\<rparr>))"

definition HYPO_ENABLED :: "'w backend \<Rightarrow> bool" where
  "HYPO_ENABLED s = (isExplain s \<and> hypo_is_enabled s)"

subsection \<open>Functions called but defined elsewhere\<close>

text \<open>
  The file calls functions of the host and of \<^verbatim>\<open>hypopg_index.c\<close> and
  \<^verbatim>\<open>hypopg_table.c\<close>, and calls the saved handlers through their pointers. None of that
  code is in the file, so the hooks take it as a parameter: \<open>call_X E p\<close> is the code
  the pointer \<open>p\<close> designates when it is stored in the hook variable \<open>X\<close>. Handlers
  and host defaults run on the whole process memory (the host can re-enter the hooks of
  this file), the injection routines on \<open>memory\<close>, the three registry look-ups on the
  table registry alone. Pointer arguments that are only passed on are addresses.
\<close>

record 'w env =
  call_ProcessUtility ::
    "fnptr \<Rightarrow> PlannedStmt option \<Rightarrow> string \<Rightarrow> nat \<Rightarrow> ptr \<Rightarrow> ptr \<Rightarrow> ptr \<Rightarrow> ptr
      \<Rightarrow> (unit, 'w backend) prog"
  standard_ProcessUtility ::
    "PlannedStmt option \<Rightarrow> string \<Rightarrow> nat \<Rightarrow> ptr \<Rightarrow> ptr \<Rightarrow> ptr \<Rightarrow> ptr
      \<Rightarrow> (unit, 'w backend) prog"
  call_ExecutorEnd :: "fnptr \<Rightarrow> ptr \<Rightarrow> (unit, 'w backend) prog"
  standard_ExecutorEnd :: "ptr \<Rightarrow> (unit, 'w backend) prog"
  call_get_relation_info ::
    "fnptr \<Rightarrow> ptr \<Rightarrow> Oid \<Rightarrow> bool \<Rightarrow> ptr \<Rightarrow> (unit, 'w backend) prog"
  call_set_rel_pathlist ::
    "fnptr \<Rightarrow> ptr \<Rightarrow> ptr \<Rightarrow> nat \<Rightarrow> RangeTblEntry \<Rightarrow> (unit, 'w backend) prog"
  call_RelationGetPartitionDesc :: "fnptr \<Rightarrow> Oid \<Rightarrow> (PartitionDesc, 'w backend) prog"
  call_RelationGetPartitionKey :: "fnptr \<Rightarrow> Oid \<Rightarrow> (PartitionKey, 'w backend) prog"
  call_skip_has_subclass :: "fnptr \<Rightarrow> Oid \<Rightarrow> (bool, 'w backend) prog"
  call_find_all_inheritors :: "fnptr \<Rightarrow> Oid \<Rightarrow> (Oid list, 'w backend) prog"
  call_expand_child_rtentry ::
    "fnptr \<Rightarrow> ptr \<Rightarrow> RangeTblEntry \<Rightarrow> nat \<Rightarrow> RelationData \<Rightarrow> ptr \<Rightarrow> ptr \<Rightarrow> PartitionDesc
      \<Rightarrow> (unit, 'w backend) prog"
  call_build_child_rtentry ::
    "fnptr \<Rightarrow> RangeTblEntry \<Rightarrow> Oid \<Rightarrow> Oid \<Rightarrow> (unit, 'w backend) prog"
  heap_open :: "Oid \<Rightarrow> LOCKMODE \<Rightarrow> (RelationData, 'w) prog"
  heap_close :: "RelationData \<Rightarrow> LOCKMODE \<Rightarrow> (unit, 'w) prog"
  hypo_table_oid_is_hypothetical :: "hypoTable list \<Rightarrow> Oid \<Rightarrow> bool"
  hypo_find_table :: "hypoTable list \<Rightarrow> Oid \<Rightarrow> error + hypoTable"
  hypo_find_inheritance_children :: "hypoTable list \<Rightarrow> hypoTable \<Rightarrow> Oid list"
  hypo_generate_partitiondesc :: "hypoTable list \<Rightarrow> hypoTable \<Rightarrow> (PartitionDesc, 'w) prog"
  hypo_injectHypotheticalIndex ::
    "ptr \<Rightarrow> Oid \<Rightarrow> bool \<Rightarrow> ptr \<Rightarrow> RelationData \<Rightarrow> hypoIndex \<Rightarrow> (unit, 'w) prog"
  hypo_injectHypotheticalPartitioning ::
    "hypoTable list \<Rightarrow> ptr \<Rightarrow> Oid \<Rightarrow> ptr \<Rightarrow> (unit, 'w) prog"
  hypo_setPartitionPathlist ::
    "hypoTable list \<Rightarrow> ptr \<Rightarrow> ptr \<Rightarrow> nat \<Rightarrow> RangeTblEntry \<Rightarrow> (unit, 'w) prog"
  hypo_ExpandChildRTE ::
    "hypoTable list \<Rightarrow> ptr \<Rightarrow> RangeTblEntry \<Rightarrow> nat \<Rightarrow> RelationData \<Rightarrow> ptr \<Rightarrow> ptr
      \<Rightarrow> PartitionDesc \<Rightarrow> (unit, 'w) prog"
  hypo_BuildChildRTE ::
    "hypoTable list \<Rightarrow> RangeTblEntry \<Rightarrow> Oid \<Rightarrow> Oid \<Rightarrow> (unit, 'w) prog"

subsection \<open>Installing and removing the hooks\<close>

text \<open>
  \<^verbatim>\<open>_PG_init\<close> and \<^verbatim>\<open>_PG_fini\<close> are written without the leading underscore.
  \<^verbatim>\<open>DefineCustomBoolVariable\<close> gives \<^verbatim>\<open>hypo_is_enabled\<close> its boot value \<^verbatim>\<open>true\<close>,
  or the value the configuration had already set for \<^verbatim>\<open>hypopg.enabled\<close>; that value
  is the parameter \<open>configured\<close>.
\<close>

definition PG_init :: "bool option \<Rightarrow> 'w backend \<Rightarrow> 'w backend" where
  "PG_init configured s =
     (let s = s\<lparr>prev_utility_hook := ProcessUtility_hook s\<rparr>;
          s = s\<lparr>ProcessUtility_hook := Some addr_hypo_utility_hook\<rparr>;
          s = s\<lparr>prev_ExecutorEnd_hook := ExecutorEnd_hook s\<rparr>;
          s = s\<lparr>ExecutorEnd_hook := Some addr_hypo_executorEnd_hook\<rparr>;
          s = s\<lparr>prev_get_relation_info_hook := get_relation_info_hook s\<rparr>;
          s = s\<lparr>get_relation_info_hook := Some addr_hypo_get_relation_info_hook\<rparr>;
          s = s\<lparr>prev_explain_get_index_name_hook := explain_get_index_name_hook s\<rparr>;
          s = s\<lparr>explain_get_index_name_hook := Some addr_hypo_explain_get_index_name_hook\<rparr>;
          s = s\<lparr>prev_set_rel_pathlist_hook := set_rel_pathlist_hook s\<rparr>;
          s = s\<lparr>set_rel_pathlist_hook := Some addr_hypo_set_rel_pathlist_hook\<rparr>;
          s = s\<lparr>prev_RelationGetPartitionDesc_hook := RelationGetPartitionDesc_hook s\<rparr>;
          s = s\<lparr>RelationGetPartitionDesc_hook := Some addr_hypo_RelationGetPartitionDesc_hook\<rparr>;
          s = s\<lparr>prev_RelationGetPartitionKey_hook := RelationGetPartitionKey_hook s\<rparr>;
          s = s\<lparr>RelationGetPartitionKey_hook := Some addr_hypo_RelationGetPartitionKey_hook\<rparr>;
          s = s\<lparr>prev_skip_has_subclass_hook := skip_has_subclass_hook s\<rparr>;
          s = s\<lparr>skip_has_subclass_hook := Some addr_hypo_skip_has_subclass_hook\<rparr>;
          s = s\<lparr>prev_find_all_inheritors_hook := find_all_inheritors_hook s\<rparr>;
          s = s\<lparr>find_all_inheritors_hook := Some addr_hypo_find_all_inheritors_hook\<rparr>;
          s = s\<lparr>prev_expand_child_rtentry_hook := expand_child_rtentry_hook s\<rparr>;
          s = s\<lparr>expand_child_rtentry_hook := Some addr_hypo_expand_child_rtentry_hook\<rparr>;
          s = s\<lparr>prev_build_child_rtentry_hook := build_child_rtentry_hook s\<rparr>;
          s = s\<lparr>build_child_rtentry_hook := Some addr_hypo_build_child_rtentry_hook\<rparr>;
          s = s\<lparr>isExplain := False\<rparr>;
          s = s\<lparr>hypoIndexes := []\<rparr>;
          s = s\<lparr>HypoMemoryContext :=
                 Some (AllocSetContext ''TopMemoryContext'' ''HypoPG context'')\<rparr>;
          s = s\<lparr>hypo_is_enabled := (case configured of None \<Rightarrow> True | Some b \<Rightarrow> b)\<rparr>
      in s)"

definition PG_fini :: "'w backend \<Rightarrow> 'w backend" where
  "PG_fini s =
     (let s = s\<lparr>ProcessUtility_hook := prev_utility_hook s\<rparr>;
          s = s\<lparr>ExecutorEnd_hook := prev_ExecutorEnd_hook s\<rparr>;
          s = s\<lparr>get_relation_info_hook := prev_get_relation_info_hook s\<rparr>;
          s = s\<lparr>explain_get_index_name_hook := prev_explain_get_index_name_hook s\<rparr>;
          s = s\<lparr>set_rel_pathlist_hook := prev_set_rel_pathlist_hook s\<rparr>;
          s = s\<lparr>RelationGetPartitionDesc_hook := prev_RelationGetPartitionDesc_hook s\<rparr>;
          s = s\<lparr>RelationGetPartitionKey_hook := prev_RelationGetPartitionKey_hook s\<rparr>;
          s = s\<lparr>skip_has_subclass_hook := prev_skip_has_subclass_hook s\<rparr>;
          s = s\<lparr>find_all_inheritors_hook := prev_find_all_inheritors_hook s\<rparr>;
          s = s\<lparr>expand_child_rtentry_hook := prev_expand_child_rtentry_hook s\<rparr>;
          s = s\<lparr>build_child_rtentry_hook := prev_build_child_rtentry_hook s\<rparr>
      in s)"

subsection \<open>The two statement hooks\<close>

text \<open>
  \<^verbatim>\<open>query_or_expression_tree_walker\<close> hands a node that is not a \<^verbatim>\<open>Query\<close> to the
  walker as it is; a planned statement is not a \<^verbatim>\<open>Query\<close>, so the flag receives
  \<open>hypo_query_walker pstmt\<close>.
\<close>

definition hypo_utility_hook ::
  "'w env \<Rightarrow> PlannedStmt option \<Rightarrow> string \<Rightarrow> nat \<Rightarrow> ptr \<Rightarrow> ptr \<Rightarrow> ptr \<Rightarrow> ptr
    \<Rightarrow> (unit, 'w backend) prog" where
  "hypo_utility_hook E pstmt queryString ctx params queryEnv dest completionTag =
     (\<lambda>s. let s = s\<lparr>isExplain := hypo_query_walker pstmt\<rparr> in
        (case prev_utility_hook s of
           Some p \<Rightarrow>
             call_ProcessUtility E p pstmt queryString ctx params queryEnv dest completionTag s
         | None \<Rightarrow>
             standard_ProcessUtility E pstmt queryString ctx params queryEnv dest completionTag s))"

definition hypo_executorEnd_hook :: "'w env \<Rightarrow> ptr \<Rightarrow> (unit, 'w backend) prog" where
  "hypo_executorEnd_hook E queryDesc =
     (\<lambda>s. let s = s\<lparr>isExplain := False\<rparr> in
        (case prev_ExecutorEnd_hook s of
           Some p \<Rightarrow> call_ExecutorEnd E p queryDesc s
         | None \<Rightarrow> standard_ExecutorEnd E queryDesc s))"

subsection \<open>The planner hooks\<close>

text \<open>The \<^verbatim>\<open>foreach\<close> of \<open>hypo_get_relation_info_hook\<close> over \<^verbatim>\<open>hypoIndexes\<close>.\<close>

fun hypo_get_relation_info_indexes ::
  "'w env \<Rightarrow> ptr \<Rightarrow> Oid \<Rightarrow> bool \<Rightarrow> ptr \<Rightarrow> RelationData \<Rightarrow> hypoIndex list \<Rightarrow> (unit, 'w) prog"
  where
  "hypo_get_relation_info_indexes E root relationObjectId inhparent rel relation [] = ret ()"
| "hypo_get_relation_info_indexes E root relationObjectId inhparent rel relation (entry # rest) =
     seq (if relid entry = relationObjectId
          then hypo_injectHypotheticalIndex E root relationObjectId inhparent rel relation entry
          else ret ())
         (hypo_get_relation_info_indexes E root relationObjectId inhparent rel relation rest)"

text \<open>
  The parameter \<^verbatim>\<open>relid\<close> of three hooks below is written \<open>relid'\<close>, the
  plain name being the field of \<open>hypoIndex\<close>. The routines called between the test of \<^verbatim>\<open>HYPO_ENABLED()\<close> and the call of the saved
  handler write \<open>memory\<close> only, so the registries and the saved handler read along the
  way are those of the state the hook started in.
\<close>

definition hypo_get_relation_info_hook ::
  "'w env \<Rightarrow> ptr \<Rightarrow> Oid \<Rightarrow> bool \<Rightarrow> ptr \<Rightarrow> (unit, 'w backend) prog" where
  "hypo_get_relation_info_hook E root relationObjectId inhparent rel =
     (\<lambda>s. seq
        (if HYPO_ENABLED s then
           bnd (on_memory (heap_open E relationObjectId AccessShareLock)) (\<lambda>relation.
             seq (if relkind (rd_rel relation) = RELKIND_RELATION
                     \<or> relkind (rd_rel relation) = RELKIND_MATVIEW
                  then on_memory (hypo_get_relation_info_indexes E root relationObjectId
                                    inhparent rel relation (hypoIndexes s))
                  else ret ())
            (seq (on_memory (heap_close E relation AccessShareLock))
                 (if hypo_table_oid_is_hypothetical E (hypoTables s) relationObjectId
                  then on_memory (hypo_injectHypotheticalPartitioning E (hypoTables s)
                                    root relationObjectId rel)
                  else ret ())))
         else ret ())
        (case prev_get_relation_info_hook s of
           Some p \<Rightarrow> call_get_relation_info E p root relationObjectId inhparent rel
         | None \<Rightarrow> ret ())
        s)"

definition hypo_set_rel_pathlist_hook ::
  "'w env \<Rightarrow> ptr \<Rightarrow> ptr \<Rightarrow> nat \<Rightarrow> RangeTblEntry \<Rightarrow> (unit, 'w backend) prog" where
  "hypo_set_rel_pathlist_hook E root rel rti rte =
     (\<lambda>s. seq
        (if HYPO_ENABLED s \<and> hypo_table_oid_is_hypothetical E (hypoTables s) (rte_relid rte)
            \<and> rte_relkind rte = CHR ''r''
         then on_memory (hypo_setPartitionPathlist E (hypoTables s) root rel rti rte)
         else ret ())
        (case prev_set_rel_pathlist_hook s of
           Some p \<Rightarrow> call_set_rel_pathlist E p root rel rti rte
         | None \<Rightarrow> ret ())
        s)"

definition hypo_RelationGetPartitionDesc_hook ::
  "'w env \<Rightarrow> Oid \<Rightarrow> (PartitionDesc, 'w backend) prog" where
  "hypo_RelationGetPartitionDesc_hook E relid' =
     (\<lambda>s. if HYPO_ENABLED s \<and> hypo_table_oid_is_hypothetical E (hypoTables s) relid'
        then (case hypo_find_table E (hypoTables s) relid' of
                Inl e \<Rightarrow> raise e s
              | Inr table \<Rightarrow> on_memory (hypo_generate_partitiondesc E (hypoTables s) table) s)
        else (case prev_RelationGetPartitionDesc_hook s of
                Some p \<Rightarrow> call_RelationGetPartitionDesc E p relid' s
              | None \<Rightarrow> ret None s))"

definition hypo_RelationGetPartitionKey_hook ::
  "'w env \<Rightarrow> Oid \<Rightarrow> (PartitionKey, 'w backend) prog" where
  "hypo_RelationGetPartitionKey_hook E relid' =
     (\<lambda>s. if HYPO_ENABLED s \<and> hypo_table_oid_is_hypothetical E (hypoTables s) relid'
        then (case hypo_find_table E (hypoTables s) relid' of
                Inl e \<Rightarrow> raise e s
              | Inr table \<Rightarrow> ret (partkey table) s)
        else (case prev_RelationGetPartitionKey_hook s of
                Some p \<Rightarrow> call_RelationGetPartitionKey E p relid' s
              | None \<Rightarrow> ret None s))"

definition hypo_skip_has_subclass_hook :: "'w env \<Rightarrow> Oid \<Rightarrow> (bool, 'w backend) prog" where
  "hypo_skip_has_subclass_hook E parentOID =
     (\<lambda>s. if HYPO_ENABLED s \<and> hypo_table_oid_is_hypothetical E (hypoTables s) parentOID
        then ret True s
        else (case prev_skip_has_subclass_hook s of
                Some p \<Rightarrow> call_skip_has_subclass E p parentOID s
              | None \<Rightarrow> ret False s))"

definition hypo_find_all_inheritors_hook :: "'w env \<Rightarrow> Oid \<Rightarrow> (Oid list, 'w backend) prog" where
  "hypo_find_all_inheritors_hook E relid' =
     (\<lambda>s. if HYPO_ENABLED s \<and> hypo_table_oid_is_hypothetical E (hypoTables s) relid'
        then (case hypo_find_table E (hypoTables s) relid' of
                Inl e \<Rightarrow> raise e s
              | Inr table \<Rightarrow>
                  ret (relid' # hypo_find_inheritance_children E (hypoTables s) table) s)
        else (case prev_find_all_inheritors_hook s of
                Some p \<Rightarrow> call_find_all_inheritors E p relid' s
              | None \<Rightarrow> ret [] s))"

definition hypo_expand_child_rtentry_hook ::
  "'w env \<Rightarrow> ptr \<Rightarrow> RangeTblEntry \<Rightarrow> nat \<Rightarrow> RelationData \<Rightarrow> ptr \<Rightarrow> ptr \<Rightarrow> PartitionDesc
    \<Rightarrow> (unit, 'w backend) prog" where
  "hypo_expand_child_rtentry_hook E root parentrte parentRTindex parentrel top_parentrc
       appinfos partdesc =
     (\<lambda>s. seq
        (if HYPO_ENABLED s \<and> hypo_table_oid_is_hypothetical E (hypoTables s) (rd_id parentrel)
         then on_memory (hypo_ExpandChildRTE E (hypoTables s) root parentrte parentRTindex
                           parentrel top_parentrc appinfos partdesc)
         else ret ())
        (case prev_expand_child_rtentry_hook s of
           Some p \<Rightarrow> call_expand_child_rtentry E p root parentrte parentRTindex parentrel
                       top_parentrc appinfos partdesc
         | None \<Rightarrow> ret ())
        s)"

definition hypo_build_child_rtentry_hook ::
  "'w env \<Rightarrow> RangeTblEntry \<Rightarrow> Oid \<Rightarrow> Oid \<Rightarrow> (unit, 'w backend) prog" where
  "hypo_build_child_rtentry_hook E childrte parentOID childOID =
     (\<lambda>s. seq
        (if HYPO_ENABLED s \<and> hypo_table_oid_is_hypothetical E (hypoTables s) (rte_relid childrte)
         then on_memory (hypo_BuildChildRTE E (hypoTables s) childrte parentOID childOID)
         else ret ())
        (case prev_build_child_rtentry_hook s of
           Some p \<Rightarrow> call_build_child_rtentry E p childrte parentOID childOID
         | None \<Rightarrow> ret ())
        s)"

subsection \<open>Reset\<close>

text \<open>
  Modelled from the spec: \<^verbatim>\<open>hypo_index_reset\<close> is defined in \<^verbatim>\<open>hypopg_index.c\<close>,
  which is not part of the sources at hand. All hypothetical index entries are discarded.
\<close>

definition hypo_index_reset :: "'w backend \<Rightarrow> 'w backend" where
  "hypo_index_reset s = s\<lparr>hypoIndexes := []\<rparr>"

text \<open>
  Modelled from the spec: \<^verbatim>\<open>hypo_table_reset\<close> is defined in \<^verbatim>\<open>hypopg_table.c\<close>,
  which is not part of the sources at hand. All hypothetical table entries are discarded.
\<close>

definition hypo_table_reset :: "'w backend \<Rightarrow> 'w backend" where
  "hypo_table_reset s = s\<lparr>hypoTables := []\<rparr>"

text \<open>\<^verbatim>\<open>PG_RETURN_VOID()\<close>: the function returns no value.\<close>

definition hypopg_reset :: "(unit, 'w backend) prog" where
  "hypopg_reset = (\<lambda>s. ret () (hypo_table_reset (hypo_index_reset s)))"

subsection \<open>Delegation and sequences of injections, as the specification words them\<close>

text \<open>
  The specification's delegation: the previous handler is invoked if one existed,
  otherwise the default is taken. For the two statement hooks the default is the host's
  standard implementation; the planner hooks have none to call and do nothing, or
  answer \<^verbatim>\<open>NULL\<close>, \<^verbatim>\<open>false\<close> or \<^verbatim>\<open>NIL\<close>.
\<close>

definition delegate ::
  "fnptr option \<Rightarrow> (fnptr \<Rightarrow> ('a, 's) prog) \<Rightarrow> ('a, 's) prog \<Rightarrow> ('a, 's) prog" where
  "delegate prev call dflt = (case prev of Some p \<Rightarrow> call p | None \<Rightarrow> dflt)"

text \<open>Running a list of steps one after the other, stopping at the first error.\<close>

fun seq_all :: "(unit, 's) prog list \<Rightarrow> (unit, 's) prog" where
  "seq_all [] = ret ()"
| "seq_all (m # ms) = seq m (seq_all ms)"

subsection \<open>The host's call sites\<close>

text \<open>
  Modelled from the spec: the places where the host calls through its hook variables
  belong to the host, whose code is not part of the sources at hand. At an extensibility
  point the host calls the handler its hook variable designates and goes on with the
  handler's answer; with no handler installed it goes on as it does with the answer
  "nothing" (\<^verbatim>\<open>NULL\<close>, \<^verbatim>\<open>false\<close>, \<^verbatim>\<open>NIL\<close>, or no answer for a hook that returns
  none), which is where its own default implementation comes in. The pointer \<open>own\<close>
  designates the hook of this file, any other pointer what the environment says.
  \<open>continue\<close> is the host's code after the call, up to its next call through a hook
  variable.
\<close>

definition host_site ::
  "fnptr \<Rightarrow> ('a, 'w backend) prog \<Rightarrow> (fnptr \<Rightarrow> ('a, 'w backend) prog)
    \<Rightarrow> ('w backend \<Rightarrow> fnptr option) \<Rightarrow> 'a \<Rightarrow> ('a \<Rightarrow> ('b, 'w) prog) \<Rightarrow> ('b, 'w backend) prog"
  where
  "host_site own hook call var nothing continue =
     (\<lambda>s. case var s of
        None \<Rightarrow> on_memory (continue nothing) s
      | Some p \<Rightarrow> bnd (if p = own then hook else call p) (\<lambda>answer. on_memory (continue answer)) s)"

text \<open>What can be observed of a run: its answer or error, and the host's memory after it.\<close>

definition same_outcome :: "(error + 'a) \<times> 'w backend \<Rightarrow> (error + 'a) \<times> 'w backend \<Rightarrow> bool" where
  "same_outcome a b = (fst a = fst b \<and> memory (snd a) = memory (snd b))"

text \<open>Handlers of the host and of other extensions read and write the host's memory, not
  the variables of this file.\<close>

definition acts_on_memory :: "('a, 'w backend) prog \<Rightarrow> bool" where
  "acts_on_memory m = (\<exists>f. m = on_memory f)"

definition foreign_handlers_act_on_memory :: "'w env \<Rightarrow> bool" where
  "foreign_handlers_act_on_memory E =
     ((\<forall>p root r inhparent rel.
         acts_on_memory (call_get_relation_info E p root r inhparent rel))
      \<and> (\<forall>p root rel rti rte. acts_on_memory (call_set_rel_pathlist E p root rel rti rte))
      \<and> (\<forall>p r. acts_on_memory (call_RelationGetPartitionDesc E p r))
      \<and> (\<forall>p r. acts_on_memory (call_RelationGetPartitionKey E p r))
      \<and> (\<forall>p r. acts_on_memory (call_skip_has_subclass E p r))
      \<and> (\<forall>p r. acts_on_memory (call_find_all_inheritors E p r))
      \<and> (\<forall>p root parentrte parentRTindex parentrel top_parentrc appinfos partdesc.
           acts_on_memory (call_expand_child_rtentry E p root parentrte parentRTindex
                             parentrel top_parentrc appinfos partdesc))
      \<and> (\<forall>p childrte parentOID childOID.
           acts_on_memory (call_build_child_rtentry E p childrte parentOID childOID)))"

text \<open>A process in which the extension is not loaded: no hook variable of the planner
  holds a hook of this file.\<close>

definition not_loaded :: "'w backend \<Rightarrow> bool" where
  "not_loaded s =
     (get_relation_info_hook s \<noteq> Some addr_hypo_get_relation_info_hook
      \<and> set_rel_pathlist_hook s \<noteq> Some addr_hypo_set_rel_pathlist_hook
      \<and> RelationGetPartitionDesc_hook s \<noteq> Some addr_hypo_RelationGetPartitionDesc_hook
      \<and> RelationGetPartitionKey_hook s \<noteq> Some addr_hypo_RelationGetPartitionKey_hook
      \<and> skip_has_subclass_hook s \<noteq> Some addr_hypo_skip_has_subclass_hook
      \<and> find_all_inheritors_hook s \<noteq> Some addr_hypo_find_all_inheritors_hook
      \<and> expand_child_rtentry_hook s \<noteq> Some addr_hypo_expand_child_rtentry_hook
      \<and> build_child_rtentry_hook s \<noteq> Some addr_hypo_build_child_rtentry_hook)"

text \<open>The same process with the extension loaded by \<open>PG_init\<close>, at a later moment: the
  flags and the registries have the values given, the rest is as \<open>PG_init\<close> left it.\<close>

definition loaded ::
  "bool option \<Rightarrow> bool \<Rightarrow> bool \<Rightarrow> hypoIndex list \<Rightarrow> hypoTable list \<Rightarrow> 'w backend \<Rightarrow> 'w backend"
  where
  "loaded configured explain enabled indexes tables s =
     (PG_init configured s)\<lparr>isExplain := explain, hypo_is_enabled := enabled,
                            hypoIndexes := indexes, hypoTables := tables\<rparr>"

subsection \<open>A small host to run the hooks on\<close>

text \<open>
  A host whose memory is the log of what was done to it. Its catalog holds the ordinary
  table 16384 and the view 16390; its registry look-ups scan the table registry.
\<close>

datatype event =
    heap_opened Oid
  | heap_closed Oid
  | index_injected Oid Oid
  | partitioning_injected Oid
  | pathlist_set Oid
  | child_rte_expanded Oid
  | child_rte_built Oid
  | handler_called fnptr
  | host_default string

definition logged :: "event \<Rightarrow> 'a \<Rightarrow> ('a, event list) prog" where
  "logged ev x = (\<lambda>w. (Inr x, w @ [ev]))"

definition demo_heap_open :: "Oid \<Rightarrow> LOCKMODE \<Rightarrow> (RelationData, event list) prog" where
  "demo_heap_open r lockmode =
     (if r = 16384 then
        logged (heap_opened r)
          \<lparr>rd_id = r, rd_rel = \<lparr>relkind = CHR ''r'', reltablespace = 0, relpersistence = CHR ''p''\<rparr>\<rparr>
      else if r = 16390 then
        logged (heap_opened r)
          \<lparr>rd_id = r, rd_rel = \<lparr>relkind = CHR ''v'', reltablespace = 0, relpersistence = CHR ''p''\<rparr>\<rparr>
      else raise (ERROR ''could not open relation''))"

definition demo_find_table :: "hypoTable list \<Rightarrow> Oid \<Rightarrow> error + hypoTable" where
  "demo_find_table tables r =
     (case find (\<lambda>t. hypoTable_oid t = r) tables of
        None \<Rightarrow> Inl (ERROR ''hypopg: could not find parent'')
      | Some t \<Rightarrow> Inr t)"

definition demo_children :: "hypoTable list \<Rightarrow> hypoTable \<Rightarrow> Oid list" where
  "demo_children tables t =
     map hypoTable_oid (filter (\<lambda>c. parentid c = hypoTable_oid t) tables)"

definition demo_env :: "(event list) env" where
  "demo_env =
     \<lparr>call_ProcessUtility = (\<lambda>p pstmt q c pa qe d t. on_memory (logged (handler_called p) ())),
      standard_ProcessUtility =
        (\<lambda>pstmt q c pa qe d t. on_memory (logged (host_default ''ProcessUtility'') ())),
      call_ExecutorEnd = (\<lambda>p qd. on_memory (logged (handler_called p) ())),
      standard_ExecutorEnd = (\<lambda>qd. on_memory (logged (host_default ''ExecutorEnd'') ())),
      call_get_relation_info = (\<lambda>p root r inh rel. on_memory (logged (handler_called p) ())),
      call_set_rel_pathlist = (\<lambda>p root rel rti rte. on_memory (logged (handler_called p) ())),
      call_RelationGetPartitionDesc = (\<lambda>p r. on_memory (logged (handler_called p) None)),
      call_RelationGetPartitionKey = (\<lambda>p r. on_memory (logged (handler_called p) None)),
      call_skip_has_subclass = (\<lambda>p r. on_memory (logged (handler_called p) (r = 16390))),
      call_find_all_inheritors = (\<lambda>p r. on_memory (logged (handler_called p) [r])),
      call_expand_child_rtentry =
        (\<lambda>p root rte rti rel rc ai pd. on_memory (logged (handler_called p) ())),
      call_build_child_rtentry = (\<lambda>p rte po co. on_memory (logged (handler_called p) ())),
      heap_open = demo_heap_open,
      heap_close = (\<lambda>relation lockmode. logged (heap_closed (rd_id relation)) ()),
      hypo_table_oid_is_hypothetical = (\<lambda>tables r. find (\<lambda>t. hypoTable_oid t = r) tables \<noteq> None),
      hypo_find_table = demo_find_table,
      hypo_find_inheritance_children = demo_children,
      hypo_generate_partitiondesc =
        (\<lambda>tables t. ret (Some \<lparr>nparts = length (demo_children tables t),
                                oids = demo_children tables t\<rparr>)),
      hypo_injectHypotheticalIndex =
        (\<lambda>root r inh rel relation entry. logged (index_injected (oid entry) r) ()),
      hypo_injectHypotheticalPartitioning =
        (\<lambda>tables root r rel. logged (partitioning_injected r) ()),
      hypo_setPartitionPathlist =
        (\<lambda>tables root rel rti rte. logged (pathlist_set (rte_relid rte)) ()),
      hypo_ExpandChildRTE =
        (\<lambda>tables root rte rti rel rc ai pd. logged (child_rte_expanded (rd_id rel)) ()),
      hypo_BuildChildRTE =
        (\<lambda>tables rte po co. logged (child_rte_built co) ())\<rparr>"

text \<open>The same host, except that processing a utility statement or ending an execution
  raises an error at once.\<close>

definition failing_env :: "(event list) env" where
  "failing_env =
     demo_env\<lparr>standard_ProcessUtility :=
                (\<lambda>pstmt q c pa qe d t. raise (ERROR ''division by zero'')),
              standard_ExecutorEnd := (\<lambda>qd. raise (ERROR ''executor shutdown failed''))\<rparr>"

text \<open>The same host, except that processing a utility statement plans a query on
  table 16384 and then shuts the executor down, both through the hooks of this file.\<close>

definition explaining_env :: "(event list) env" where
  "explaining_env =
     demo_env\<lparr>standard_ProcessUtility :=
                (\<lambda>pstmt q c pa qe d t.
                   seq (hypo_get_relation_info_hook demo_env 1 16384 False 2)
                       (hypo_executorEnd_hook demo_env 0))\<rparr>"

text \<open>
  A process after \<open>PG_init\<close> on a host with no other extension, with three
  hypothetical indexes (two on table 16384), the hypothetical table 16384 with two
  partitions, and the view 16390 registered as a hypothetical table.
\<close>

definition demo_backend :: "bool \<Rightarrow> bool \<Rightarrow> (event list) backend" where
  "demo_backend explain enabled =
     \<lparr>ProcessUtility_hook = Some addr_hypo_utility_hook,
      ExecutorEnd_hook = Some addr_hypo_executorEnd_hook,
      get_relation_info_hook = Some addr_hypo_get_relation_info_hook,
      explain_get_index_name_hook = Some addr_hypo_explain_get_index_name_hook,
      set_rel_pathlist_hook = Some addr_hypo_set_rel_pathlist_hook,
      RelationGetPartitionDesc_hook = Some addr_hypo_RelationGetPartitionDesc_hook,
      RelationGetPartitionKey_hook = Some addr_hypo_RelationGetPartitionKey_hook,
      skip_has_subclass_hook = Some addr_hypo_skip_has_subclass_hook,
      find_all_inheritors_hook = Some addr_hypo_find_all_inheritors_hook,
      expand_child_rtentry_hook = Some addr_hypo_expand_child_rtentry_hook,
      build_child_rtentry_hook = Some addr_hypo_build_child_rtentry_hook,
      prev_utility_hook = None,
      prev_ExecutorEnd_hook = None,
      prev_get_relation_info_hook = None,
      prev_explain_get_index_name_hook = None,
      prev_set_rel_pathlist_hook = None,
      prev_RelationGetPartitionDesc_hook = None,
      prev_RelationGetPartitionKey_hook = None,
      prev_skip_has_subclass_hook = None,
      prev_find_all_inheritors_hook = None,
      prev_expand_child_rtentry_hook = None,
      prev_build_child_rtentry_hook = None,
      isExplain = explain,
      hypo_is_enabled = enabled,
      HypoMemoryContext = Some (AllocSetContext ''TopMemoryContext'' ''HypoPG context''),
      hypoIndexes =
        [\<lparr>oid = 100001, relid = 16384\<rparr>, \<lparr>oid = 100002, relid = 16385\<rparr>,
         \<lparr>oid = 100003, relid = 16384\<rparr>],
      hypoTables =
        [\<lparr>hypoTable_oid = 16384, parentid = 0,
          partkey = Some \<lparr>strategy = CHR ''r'', partattrs = [1]\<rparr>\<rparr>,
         \<lparr>hypoTable_oid = 200001, parentid = 16384, partkey = None\<rparr>,
         \<lparr>hypoTable_oid = 200002, parentid = 16384, partkey = None\<rparr>,
         \<lparr>hypoTable_oid = 16390, parentid = 0,
          partkey = Some \<lparr>strategy = CHR ''l'', partattrs = [2]\<rparr>\<rparr>],
      memory = []\<rparr>"

text \<open>
  The process before the extension is loaded: another extension has its handlers in the
  relation-info and find-all-inheritors hook variables, the other hook variables are
  empty.
\<close>

definition unloaded_backend :: "(event list) backend" where
  "unloaded_backend =
     \<lparr>ProcessUtility_hook = None,
      ExecutorEnd_hook = None,
      get_relation_info_hook = Some (addr_other 3),
      explain_get_index_name_hook = None,
      set_rel_pathlist_hook = None,
      RelationGetPartitionDesc_hook = None,
      RelationGetPartitionKey_hook = None,
      skip_has_subclass_hook = None,
      find_all_inheritors_hook = Some (addr_other 7),
      expand_child_rtentry_hook = None,
      build_child_rtentry_hook = None,
      prev_utility_hook = None,
      prev_ExecutorEnd_hook = None,
      prev_get_relation_info_hook = None,
      prev_explain_get_index_name_hook = None,
      prev_set_rel_pathlist_hook = None,
      prev_RelationGetPartitionDesc_hook = None,
      prev_RelationGetPartitionKey_hook = None,
      prev_skip_has_subclass_hook = None,
      prev_find_all_inheritors_hook = None,
      prev_expand_child_rtentry_hook = None,
      prev_build_child_rtentry_hook = None,
      isExplain = False,
      hypo_is_enabled = False,
      HypoMemoryContext = None,
      hypoIndexes = [],
      hypoTables = [],
      memory = []\<rparr>"

text \<open>The small host after two of its call sites: an answer is taken as it is, and with
  no answer (\<^verbatim>\<open>false\<close>, \<^verbatim>\<open>NIL\<close>) the host's own look-up in the catalog runs.\<close>

definition demo_after_has_subclass :: "Oid \<Rightarrow> bool \<Rightarrow> (bool, event list) prog" where
  "demo_after_has_subclass r answer =
     (if answer then ret True else logged (host_default ''has_subclass'') (r = 16384))"

definition demo_after_find_all_inheritors :: "Oid \<Rightarrow> Oid list \<Rightarrow> (Oid list, event list) prog" where
  "demo_after_find_all_inheritors r answer =
     (if answer = [] then logged (host_default ''find_all_inheritors'') [r, 16391]
      else ret answer)"

definition explain_stmt :: "PlannedStmt option" where
  "explain_stmt = Some \<lparr>utilityStmt = Some (T_ExplainStmt [\<lparr>defname = ''verbose''\<rparr>])\<rparr>"

section \<open>Properties\<close>

lemma hypo_query_walker_options_iff:
  "hypo_query_walker_options opts = (''analyze'' \<notin> defname ` set opts)"
  by (induction opts) auto

text \<open>
  C3. The explain detector answers false for an absent statement, false for a statement
  that is not an explain (also a planned statement wrapping no utility statement), false
  for an explain whose option list names \<open>analyze\<close>, and true for every other explain.
\<close>

theorem hypo_query_walker_cases:
  "hypo_query_walker None = False
   \<and> hypo_query_walker (Some \<lparr>utilityStmt = None\<rparr>) = False
   \<and> hypo_query_walker (Some \<lparr>utilityStmt = Some (T_Other tag)\<rparr>) = False
   \<and> hypo_query_walker (Some \<lparr>utilityStmt = Some (T_ExplainStmt opts)\<rparr>)
       = (''analyze'' \<notin> defname ` set opts)"
  by (simp add: hypo_query_walker_def hypo_query_walker_options_iff)

subsection \<open>Laws of the program combinators\<close>

lemma seq_ret_left: "seq (ret ()) m = m"
  by (simp add: seq_def bnd_def ret_def)

lemma seq_assoc: "seq (seq a b) c = seq a (seq b c)"
  by (auto simp: seq_def bnd_def fun_eq_iff split: prod.splits sum.splits)

lemma bnd_on_memory_Inr:
  "m (memory s) = (Inr x, w) \<Longrightarrow> bnd (on_memory m) f s = f x (s\<lparr>memory := w\<rparr>)"
  by (simp add: bnd_def on_memory_def)


lemma seq_apply: "seq m k s = (case m s of (Inl e, s') \<Rightarrow> (Inl e, s') | (Inr x, s') \<Rightarrow> k s')"
  by (simp add: seq_def bnd_def)

lemmas demo_simps =
  demo_env_def demo_backend_def demo_heap_open_def demo_find_table_def demo_children_def
  logged_def ret_def raise_def bnd_def seq_def on_memory_def delegate_def HYPO_ENABLED_def
  RELKIND_RELATION_def RELKIND_MATVIEW_def AccessShareLock_def

subsection \<open>Installing and removing\<close>

lemma PG_fini_PG_init_hooks:
  "ProcessUtility_hook (PG_fini (PG_init c s)) = ProcessUtility_hook s"
  "ExecutorEnd_hook (PG_fini (PG_init c s)) = ExecutorEnd_hook s"
  "get_relation_info_hook (PG_fini (PG_init c s)) = get_relation_info_hook s"
  "explain_get_index_name_hook (PG_fini (PG_init c s)) = explain_get_index_name_hook s"
  "set_rel_pathlist_hook (PG_fini (PG_init c s)) = set_rel_pathlist_hook s"
  "RelationGetPartitionDesc_hook (PG_fini (PG_init c s)) = RelationGetPartitionDesc_hook s"
  "RelationGetPartitionKey_hook (PG_fini (PG_init c s)) = RelationGetPartitionKey_hook s"
  "skip_has_subclass_hook (PG_fini (PG_init c s)) = skip_has_subclass_hook s"
  "find_all_inheritors_hook (PG_fini (PG_init c s)) = find_all_inheritors_hook s"
  "expand_child_rtentry_hook (PG_fini (PG_init c s)) = expand_child_rtentry_hook s"
  "build_child_rtentry_hook (PG_fini (PG_init c s)) = build_child_rtentry_hook s"
  by (simp_all add: PG_init_def PG_fini_def)

lemma PG_init_saves:
  "prev_utility_hook (PG_init c s) = ProcessUtility_hook s"
  "prev_ExecutorEnd_hook (PG_init c s) = ExecutorEnd_hook s"
  "prev_get_relation_info_hook (PG_init c s) = get_relation_info_hook s"
  "prev_explain_get_index_name_hook (PG_init c s) = explain_get_index_name_hook s"
  "prev_set_rel_pathlist_hook (PG_init c s) = set_rel_pathlist_hook s"
  "prev_RelationGetPartitionDesc_hook (PG_init c s) = RelationGetPartitionDesc_hook s"
  "prev_RelationGetPartitionKey_hook (PG_init c s) = RelationGetPartitionKey_hook s"
  "prev_skip_has_subclass_hook (PG_init c s) = skip_has_subclass_hook s"
  "prev_find_all_inheritors_hook (PG_init c s) = find_all_inheritors_hook s"
  "prev_expand_child_rtentry_hook (PG_init c s) = expand_child_rtentry_hook s"
  "prev_build_child_rtentry_hook (PG_init c s) = build_child_rtentry_hook s"
  by (simp_all add: PG_init_def)

lemma PG_init_installs:
  "ProcessUtility_hook (PG_init c s) = Some addr_hypo_utility_hook"
  "ExecutorEnd_hook (PG_init c s) = Some addr_hypo_executorEnd_hook"
  "get_relation_info_hook (PG_init c s) = Some addr_hypo_get_relation_info_hook"
  "explain_get_index_name_hook (PG_init c s) = Some addr_hypo_explain_get_index_name_hook"
  "set_rel_pathlist_hook (PG_init c s) = Some addr_hypo_set_rel_pathlist_hook"
  "RelationGetPartitionDesc_hook (PG_init c s) = Some addr_hypo_RelationGetPartitionDesc_hook"
  "RelationGetPartitionKey_hook (PG_init c s) = Some addr_hypo_RelationGetPartitionKey_hook"
  "skip_has_subclass_hook (PG_init c s) = Some addr_hypo_skip_has_subclass_hook"
  "find_all_inheritors_hook (PG_init c s) = Some addr_hypo_find_all_inheritors_hook"
  "expand_child_rtentry_hook (PG_init c s) = Some addr_hypo_expand_child_rtentry_hook"
  "build_child_rtentry_hook (PG_init c s) = Some addr_hypo_build_child_rtentry_hook"
  by (simp_all add: PG_init_def)

text \<open>
  C8. \<open>PG_init\<close> saves the handler each of the eleven hook variables holds and puts
  the handler of this file in its place; \<open>PG_fini\<close> after it leaves every hook variable
  holding what it held before \<open>PG_init\<close>.
\<close>

theorem PG_init_PG_fini_round_trip:
  "(prev_utility_hook (PG_init c s) = ProcessUtility_hook s
    \<and> prev_ExecutorEnd_hook (PG_init c s) = ExecutorEnd_hook s
    \<and> prev_get_relation_info_hook (PG_init c s) = get_relation_info_hook s
    \<and> prev_explain_get_index_name_hook (PG_init c s) = explain_get_index_name_hook s
    \<and> prev_set_rel_pathlist_hook (PG_init c s) = set_rel_pathlist_hook s
    \<and> prev_RelationGetPartitionDesc_hook (PG_init c s) = RelationGetPartitionDesc_hook s
    \<and> prev_RelationGetPartitionKey_hook (PG_init c s) = RelationGetPartitionKey_hook s
    \<and> prev_skip_has_subclass_hook (PG_init c s) = skip_has_subclass_hook s
    \<and> prev_find_all_inheritors_hook (PG_init c s) = find_all_inheritors_hook s
    \<and> prev_expand_child_rtentry_hook (PG_init c s) = expand_child_rtentry_hook s
    \<and> prev_build_child_rtentry_hook (PG_init c s) = build_child_rtentry_hook s)
   \<and> (ProcessUtility_hook (PG_init c s) = Some addr_hypo_utility_hook
    \<and> ExecutorEnd_hook (PG_init c s) = Some addr_hypo_executorEnd_hook
    \<and> get_relation_info_hook (PG_init c s) = Some addr_hypo_get_relation_info_hook
    \<and> explain_get_index_name_hook (PG_init c s) = Some addr_hypo_explain_get_index_name_hook
    \<and> set_rel_pathlist_hook (PG_init c s) = Some addr_hypo_set_rel_pathlist_hook
    \<and> RelationGetPartitionDesc_hook (PG_init c s)
        = Some addr_hypo_RelationGetPartitionDesc_hook
    \<and> RelationGetPartitionKey_hook (PG_init c s) = Some addr_hypo_RelationGetPartitionKey_hook
    \<and> skip_has_subclass_hook (PG_init c s) = Some addr_hypo_skip_has_subclass_hook
    \<and> find_all_inheritors_hook (PG_init c s) = Some addr_hypo_find_all_inheritors_hook
    \<and> expand_child_rtentry_hook (PG_init c s) = Some addr_hypo_expand_child_rtentry_hook
    \<and> build_child_rtentry_hook (PG_init c s) = Some addr_hypo_build_child_rtentry_hook)
   \<and> (ProcessUtility_hook (PG_fini (PG_init c s)) = ProcessUtility_hook s
    \<and> ExecutorEnd_hook (PG_fini (PG_init c s)) = ExecutorEnd_hook s
    \<and> get_relation_info_hook (PG_fini (PG_init c s)) = get_relation_info_hook s
    \<and> explain_get_index_name_hook (PG_fini (PG_init c s)) = explain_get_index_name_hook s
    \<and> set_rel_pathlist_hook (PG_fini (PG_init c s)) = set_rel_pathlist_hook s
    \<and> RelationGetPartitionDesc_hook (PG_fini (PG_init c s)) = RelationGetPartitionDesc_hook s
    \<and> RelationGetPartitionKey_hook (PG_fini (PG_init c s)) = RelationGetPartitionKey_hook s
    \<and> skip_has_subclass_hook (PG_fini (PG_init c s)) = skip_has_subclass_hook s
    \<and> find_all_inheritors_hook (PG_fini (PG_init c s)) = find_all_inheritors_hook s
    \<and> expand_child_rtentry_hook (PG_fini (PG_init c s)) = expand_child_rtentry_hook s
    \<and> build_child_rtentry_hook (PG_fini (PG_init c s)) = build_child_rtentry_hook s)"
  by (simp only: PG_fini_PG_init_hooks PG_init_saves PG_init_installs simp_thms)

subsection \<open>Reset\<close>

text \<open>
  C7. \<open>hypopg_reset\<close> returns no value and leaves both registries empty, whatever they
  held; run twice in a row it returns without error and leaves the state that one run
  leaves.
\<close>

theorem hypopg_reset_idempotent:
  "hypopg_reset s = (Inr (), s\<lparr>hypoIndexes := [], hypoTables := []\<rparr>)
   \<and> hypoIndexes (snd (hypopg_reset s)) = []
   \<and> hypoTables (snd (hypopg_reset s)) = []
   \<and> seq hypopg_reset hypopg_reset s = hypopg_reset s"
  by (simp add: hypopg_reset_def hypo_index_reset_def hypo_table_reset_def ret_def seq_def
      bnd_def)

subsection \<open>The flag at the end of a statement\<close>

text \<open>
  C9. \<open>hypo_executorEnd_hook\<close> writes \<^verbatim>\<open>isExplain = false\<close> before it delegates: the
  previous handler, or the host's \<^verbatim>\<open>standard_ExecutorEnd\<close> when there is none, starts
  in the memory where the flag is already false, and the hook's outcome is that
  handler's outcome, an error included. So when the delegated handler does not write the
  flag itself, the flag is false after the hook whatever the outcome.
\<close>

theorem hypo_executorEnd_hook_clears_first:
  "hypo_executorEnd_hook E queryDesc s
     = delegate (prev_ExecutorEnd_hook s) (\<lambda>p. call_ExecutorEnd E p queryDesc)
         (standard_ExecutorEnd E queryDesc) (s\<lparr>isExplain := False\<rparr>)
   \<and> ((\<forall>t. isExplain (snd (delegate (prev_ExecutorEnd_hook s)
                               (\<lambda>p. call_ExecutorEnd E p queryDesc)
                               (standard_ExecutorEnd E queryDesc) t)) = isExplain t)
        \<longrightarrow> \<not> isExplain (snd (hypo_executorEnd_hook E queryDesc s)))"
  by (simp add: hypo_executorEnd_hook_def delegate_def split: option.splits)

text \<open>On the host whose \<^verbatim>\<open>standard_ExecutorEnd\<close> raises, with the flag set: the error
  comes out of the hook and the flag is false.\<close>

theorem hypo_executorEnd_hook_clears_first_witness:
  "hypo_executorEnd_hook failing_env 0 (demo_backend True True)
     = (Inl (ERROR ''executor shutdown failed''), demo_backend False True)
   \<and> \<not> isExplain (snd (hypo_executorEnd_hook failing_env 0 (demo_backend True True)))"
  using hypo_executorEnd_hook_clears_first [of failing_env 0 "demo_backend True True"]
  by (simp add: failing_env_def demo_simps)

text \<open>An explain that completes: the indexes of table 16384 are injected while the
  statement is planned, and the flag is false once the executor has been shut down.\<close>

lemma completed_explain_resets_isExplain:
  "hypo_utility_hook explaining_env explain_stmt ''EXPLAIN (VERBOSE) SELECT * FROM t''
       0 0 0 0 0 (demo_backend False True)
     = (Inr (), (demo_backend False True)
          \<lparr>memory := [heap_opened 16384, index_injected 100001 16384,
                      index_injected 100003 16384, heap_closed 16384,
                      partitioning_injected 16384, host_default ''ExecutorEnd'']\<rparr>)"
  by (simp add: hypo_utility_hook_def hypo_get_relation_info_hook_def
      hypo_executorEnd_hook_def explaining_env_def explain_stmt_def hypo_query_walker_def
      demo_simps)

text \<open>
  C1. The flag is to read false after every explanation, failed ones included. The
  only write of false is the one in \<open>hypo_executorEnd_hook\<close>; \<open>hypo_utility_hook\<close>
  sets the flag and delegates with no handler around the call. When the delegated
  processing of an \<^verbatim>\<open>EXPLAIN\<close> raises before the executor is shut down, the error leaves
  \<open>hypo_utility_hook\<close> with the flag still true, and the relation-info hook run for
  the next statement injects the hypothetical indexes of table 16384.
\<close>

theorem failed_explain_leaves_isExplain_set:
  "hypo_utility_hook failing_env explain_stmt ''EXPLAIN (VERBOSE) SELECT 1/0 FROM t''
       0 0 0 0 0 (demo_backend False True)
     = (Inl (ERROR ''division by zero''), demo_backend True True)
   \<and> isExplain (demo_backend True True)
   \<and> HYPO_ENABLED (demo_backend True True)
   \<and> hypo_get_relation_info_hook failing_env 1 16384 False 2 (demo_backend True True)
       = (Inr (), (demo_backend True True)
            \<lparr>memory := [heap_opened 16384, index_injected 100001 16384,
                        index_injected 100003 16384, heap_closed 16384,
                        partitioning_injected 16384]\<rparr>)"
  by (simp add: hypo_utility_hook_def hypo_get_relation_info_hook_def failing_env_def
      explain_stmt_def hypo_query_walker_def demo_simps)

subsection \<open>Outside the simulation window\<close>

text \<open>
  When the flag is false or \<^verbatim>\<open>hypopg.enabled\<close> is off, each of the eight planner
  hooks is delegation and nothing else: it runs the previous handler on the memory as it
  found it and returns what that handler returns, or, with no previous handler, changes
  nothing and answers nothing (\<^verbatim>\<open>NULL\<close>, \<^verbatim>\<open>false\<close>, \<^verbatim>\<open>NIL\<close>).
\<close>

lemma inactive_hooks_delegate:
  assumes "\<not> isExplain s \<or> \<not> hypo_is_enabled s"
  shows "hypo_get_relation_info_hook E root r inhparent rel s
           = delegate (prev_get_relation_info_hook s)
               (\<lambda>p. call_get_relation_info E p root r inhparent rel) (ret ()) s
       \<and> hypo_set_rel_pathlist_hook E root rel rti rte s
           = delegate (prev_set_rel_pathlist_hook s)
               (\<lambda>p. call_set_rel_pathlist E p root rel rti rte) (ret ()) s
       \<and> hypo_RelationGetPartitionDesc_hook E r s
           = delegate (prev_RelationGetPartitionDesc_hook s)
               (\<lambda>p. call_RelationGetPartitionDesc E p r) (ret None) s
       \<and> hypo_RelationGetPartitionKey_hook E r s
           = delegate (prev_RelationGetPartitionKey_hook s)
               (\<lambda>p. call_RelationGetPartitionKey E p r) (ret None) s
       \<and> hypo_skip_has_subclass_hook E r s
           = delegate (prev_skip_has_subclass_hook s)
               (\<lambda>p. call_skip_has_subclass E p r) (ret False) s
       \<and> hypo_find_all_inheritors_hook E r s
           = delegate (prev_find_all_inheritors_hook s)
               (\<lambda>p. call_find_all_inheritors E p r) (ret []) s
       \<and> hypo_expand_child_rtentry_hook E root parentrte parentRTindex parentrel top_parentrc
             appinfos partdesc s
           = delegate (prev_expand_child_rtentry_hook s)
               (\<lambda>p. call_expand_child_rtentry E p root parentrte parentRTindex parentrel
                      top_parentrc appinfos partdesc) (ret ()) s
       \<and> hypo_build_child_rtentry_hook E childrte parentOID childOID s
           = delegate (prev_build_child_rtentry_hook s)
               (\<lambda>p. call_build_child_rtentry E p childrte parentOID childOID) (ret ()) s"
proof -
  from assms have off: "\<not> HYPO_ENABLED s"
    by (simp add: HYPO_ENABLED_def)
  have "hypo_get_relation_info_hook E root r inhparent rel s
           = delegate (prev_get_relation_info_hook s)
               (\<lambda>p. call_get_relation_info E p root r inhparent rel) (ret ()) s"
    using off by (simp add: hypo_get_relation_info_hook_def seq_ret_left delegate_def)
  moreover have "hypo_set_rel_pathlist_hook E root rel rti rte s
           = delegate (prev_set_rel_pathlist_hook s)
               (\<lambda>p. call_set_rel_pathlist E p root rel rti rte) (ret ()) s"
    using off by (simp add: hypo_set_rel_pathlist_hook_def seq_ret_left delegate_def)
  moreover have "hypo_RelationGetPartitionDesc_hook E r s
           = delegate (prev_RelationGetPartitionDesc_hook s)
               (\<lambda>p. call_RelationGetPartitionDesc E p r) (ret None) s"
    using off by (simp add: hypo_RelationGetPartitionDesc_hook_def delegate_def split: option.splits)
  moreover have "hypo_RelationGetPartitionKey_hook E r s
           = delegate (prev_RelationGetPartitionKey_hook s)
               (\<lambda>p. call_RelationGetPartitionKey E p r) (ret None) s"
    using off by (simp add: hypo_RelationGetPartitionKey_hook_def delegate_def split: option.splits)
  moreover have "hypo_skip_has_subclass_hook E r s
           = delegate (prev_skip_has_subclass_hook s)
               (\<lambda>p. call_skip_has_subclass E p r) (ret False) s"
    using off by (simp add: hypo_skip_has_subclass_hook_def delegate_def split: option.splits)
  moreover have "hypo_find_all_inheritors_hook E r s
           = delegate (prev_find_all_inheritors_hook s)
               (\<lambda>p. call_find_all_inheritors E p r) (ret []) s"
    using off by (simp add: hypo_find_all_inheritors_hook_def delegate_def split: option.splits)
  moreover have "hypo_expand_child_rtentry_hook E root parentrte parentRTindex parentrel
             top_parentrc appinfos partdesc s
           = delegate (prev_expand_child_rtentry_hook s)
               (\<lambda>p. call_expand_child_rtentry E p root parentrte parentRTindex parentrel
                      top_parentrc appinfos partdesc) (ret ()) s"
    using off by (simp add: hypo_expand_child_rtentry_hook_def seq_ret_left delegate_def)
  moreover have "hypo_build_child_rtentry_hook E childrte parentOID childOID s
           = delegate (prev_build_child_rtentry_hook s)
               (\<lambda>p. call_build_child_rtentry E p childrte parentOID childOID) (ret ()) s"
    using off by (simp add: hypo_build_child_rtentry_hook_def seq_ret_left delegate_def)
  ultimately show ?thesis by blast
qed

lemma same_outcome_on_memory:
  "memory t = memory s \<Longrightarrow> same_outcome (on_memory m t) (on_memory m s)"
  by (simp add: same_outcome_def on_memory_def split: prod.splits)

lemma same_outcome_bnd_on_memory:
  "memory t = memory s \<Longrightarrow>
   same_outcome (bnd (on_memory f) (\<lambda>x. on_memory (k x)) t)
                (bnd (on_memory f) (\<lambda>x. on_memory (k x)) s)"
  by (simp add: same_outcome_def on_memory_def bnd_def split: prod.splits sum.splits)

lemma host_site_loaded:
  assumes mem: "memory t = memory s"
    and var_t: "var t = Some own"
    and hook_t: "hook t = delegate (var s) call (ret nothing) t"
    and foreign: "\<And>p. acts_on_memory (call p)"
    and not_own: "var s \<noteq> Some own"
  shows "same_outcome (host_site own hook call var nothing k t)
                      (host_site own hook call var nothing k s)"
proof (cases "var s")
  case None
  then have "host_site own hook call var nothing k t = on_memory (k nothing) t"
    using var_t hook_t by (simp add: host_site_def delegate_def bnd_def ret_def)
  moreover have "host_site own hook call var nothing k s = on_memory (k nothing) s"
    using None by (simp add: host_site_def)
  ultimately show ?thesis
    using mem by (simp add: same_outcome_on_memory)
next
  case (Some p)
  with not_own have p: "p \<noteq> own" by simp
  from foreign obtain f where f: "call p = on_memory f"
    unfolding acts_on_memory_def by blast
  have "host_site own hook call var nothing k t
          = bnd (on_memory f) (\<lambda>x. on_memory (k x)) t"
    using var_t hook_t Some f by (simp add: host_site_def delegate_def bnd_def)
  moreover have "host_site own hook call var nothing k s
          = bnd (on_memory f) (\<lambda>x. on_memory (k x)) s"
    using Some p f by (simp add: host_site_def)
  ultimately show ?thesis
    using mem by (simp add: same_outcome_bnd_on_memory)
qed

lemma loaded_simps:
  "memory (loaded c e b ixs tbs s) = memory s"
  "isExplain (loaded c e b ixs tbs s) = e"
  "hypo_is_enabled (loaded c e b ixs tbs s) = b"
  "get_relation_info_hook (loaded c e b ixs tbs s) = Some addr_hypo_get_relation_info_hook"
  "set_rel_pathlist_hook (loaded c e b ixs tbs s) = Some addr_hypo_set_rel_pathlist_hook"
  "RelationGetPartitionDesc_hook (loaded c e b ixs tbs s)
     = Some addr_hypo_RelationGetPartitionDesc_hook"
  "RelationGetPartitionKey_hook (loaded c e b ixs tbs s)
     = Some addr_hypo_RelationGetPartitionKey_hook"
  "skip_has_subclass_hook (loaded c e b ixs tbs s) = Some addr_hypo_skip_has_subclass_hook"
  "find_all_inheritors_hook (loaded c e b ixs tbs s) = Some addr_hypo_find_all_inheritors_hook"
  "expand_child_rtentry_hook (loaded c e b ixs tbs s) = Some addr_hypo_expand_child_rtentry_hook"
  "build_child_rtentry_hook (loaded c e b ixs tbs s) = Some addr_hypo_build_child_rtentry_hook"
  "prev_get_relation_info_hook (loaded c e b ixs tbs s) = get_relation_info_hook s"
  "prev_set_rel_pathlist_hook (loaded c e b ixs tbs s) = set_rel_pathlist_hook s"
  "prev_RelationGetPartitionDesc_hook (loaded c e b ixs tbs s) = RelationGetPartitionDesc_hook s"
  "prev_RelationGetPartitionKey_hook (loaded c e b ixs tbs s) = RelationGetPartitionKey_hook s"
  "prev_skip_has_subclass_hook (loaded c e b ixs tbs s) = skip_has_subclass_hook s"
  "prev_find_all_inheritors_hook (loaded c e b ixs tbs s) = find_all_inheritors_hook s"
  "prev_expand_child_rtentry_hook (loaded c e b ixs tbs s) = expand_child_rtentry_hook s"
  "prev_build_child_rtentry_hook (loaded c e b ixs tbs s) = build_child_rtentry_hook s"
  by (simp_all add: loaded_def PG_init_def)

lemma acts_on_memory_on_memory: "acts_on_memory (on_memory f)"
  by (auto simp: acts_on_memory_def)

lemma demo_env_foreign_handlers: "foreign_handlers_act_on_memory demo_env"
  by (simp add: foreign_handlers_act_on_memory_def demo_env_def acts_on_memory_on_memory)

text \<open>
  C2. Outside the window (the flag false or \<^verbatim>\<open>hypopg.enabled\<close> off), whatever the
  registries hold, each of the eight planner hooks injects nothing and falls through: the
  hook is the handler that was installed before it, or does nothing and answers nothing
  when there was none; and at the host's call site the process with the extension loaded
  gives the answer, or the error, and leaves the host's memory as the process without
  the extension does, where the previously installed handler runs, or the host's own
  default when there is none.
\<close>

theorem inactive_hooks_fall_through:
  assumes off: "\<not> e \<or> \<not> b"
    and unloaded: "not_loaded s"
    and foreign: "foreign_handlers_act_on_memory E"
  shows "(hypo_get_relation_info_hook E root r inhparent rel (loaded c e b ixs tbs s)
           = delegate (get_relation_info_hook s)
               (\<lambda>p. call_get_relation_info E p root r inhparent rel) (ret ()) (loaded c e b ixs tbs s)
       \<and> hypo_set_rel_pathlist_hook E root rel rti rte (loaded c e b ixs tbs s)
           = delegate (set_rel_pathlist_hook s)
               (\<lambda>p. call_set_rel_pathlist E p root rel rti rte) (ret ()) (loaded c e b ixs tbs s)
       \<and> hypo_RelationGetPartitionDesc_hook E r (loaded c e b ixs tbs s)
           = delegate (RelationGetPartitionDesc_hook s)
               (\<lambda>p. call_RelationGetPartitionDesc E p r) (ret None) (loaded c e b ixs tbs s)
       \<and> hypo_RelationGetPartitionKey_hook E r (loaded c e b ixs tbs s)
           = delegate (RelationGetPartitionKey_hook s)
               (\<lambda>p. call_RelationGetPartitionKey E p r) (ret None) (loaded c e b ixs tbs s)
       \<and> hypo_skip_has_subclass_hook E r (loaded c e b ixs tbs s)
           = delegate (skip_has_subclass_hook s)
               (\<lambda>p. call_skip_has_subclass E p r) (ret False) (loaded c e b ixs tbs s)
       \<and> hypo_find_all_inheritors_hook E r (loaded c e b ixs tbs s)
           = delegate (find_all_inheritors_hook s)
               (\<lambda>p. call_find_all_inheritors E p r) (ret []) (loaded c e b ixs tbs s)
       \<and> hypo_expand_child_rtentry_hook E root parentrte parentRTindex parentrel top_parentrc
             appinfos partdesc (loaded c e b ixs tbs s)
           = delegate (expand_child_rtentry_hook s)
               (\<lambda>p. call_expand_child_rtentry E p root parentrte parentRTindex parentrel
                      top_parentrc appinfos partdesc) (ret ()) (loaded c e b ixs tbs s)
       \<and> hypo_build_child_rtentry_hook E childrte parentOID childOID (loaded c e b ixs tbs s)
           = delegate (build_child_rtentry_hook s)
               (\<lambda>p. call_build_child_rtentry E p childrte parentOID childOID) (ret ()) (loaded c e b ixs tbs s))
     \<and> (same_outcome
           (host_site addr_hypo_get_relation_info_hook
              (hypo_get_relation_info_hook E root r inhparent rel)
              (\<lambda>p. call_get_relation_info E p root r inhparent rel)
              get_relation_info_hook () after_info (loaded c e b ixs tbs s))
           (host_site addr_hypo_get_relation_info_hook
              (hypo_get_relation_info_hook E root r inhparent rel)
              (\<lambda>p. call_get_relation_info E p root r inhparent rel)
              get_relation_info_hook () after_info s)
       \<and> same_outcome
           (host_site addr_hypo_set_rel_pathlist_hook
              (hypo_set_rel_pathlist_hook E root rel rti rte)
              (\<lambda>p. call_set_rel_pathlist E p root rel rti rte)
              set_rel_pathlist_hook () after_pathlist (loaded c e b ixs tbs s))
           (host_site addr_hypo_set_rel_pathlist_hook
              (hypo_set_rel_pathlist_hook E root rel rti rte)
              (\<lambda>p. call_set_rel_pathlist E p root rel rti rte)
              set_rel_pathlist_hook () after_pathlist s)
       \<and> same_outcome
           (host_site addr_hypo_RelationGetPartitionDesc_hook
              (hypo_RelationGetPartitionDesc_hook E r)
              (\<lambda>p. call_RelationGetPartitionDesc E p r)
              RelationGetPartitionDesc_hook None after_desc (loaded c e b ixs tbs s))
           (host_site addr_hypo_RelationGetPartitionDesc_hook
              (hypo_RelationGetPartitionDesc_hook E r)
              (\<lambda>p. call_RelationGetPartitionDesc E p r)
              RelationGetPartitionDesc_hook None after_desc s)
       \<and> same_outcome
           (host_site addr_hypo_RelationGetPartitionKey_hook
              (hypo_RelationGetPartitionKey_hook E r)
              (\<lambda>p. call_RelationGetPartitionKey E p r)
              RelationGetPartitionKey_hook None after_key (loaded c e b ixs tbs s))
           (host_site addr_hypo_RelationGetPartitionKey_hook
              (hypo_RelationGetPartitionKey_hook E r)
              (\<lambda>p. call_RelationGetPartitionKey E p r)
              RelationGetPartitionKey_hook None after_key s)
       \<and> same_outcome
           (host_site addr_hypo_skip_has_subclass_hook
              (hypo_skip_has_subclass_hook E r)
              (\<lambda>p. call_skip_has_subclass E p r)
              skip_has_subclass_hook False after_subclass (loaded c e b ixs tbs s))
           (host_site addr_hypo_skip_has_subclass_hook
              (hypo_skip_has_subclass_hook E r)
              (\<lambda>p. call_skip_has_subclass E p r)
              skip_has_subclass_hook False after_subclass s)
       \<and> same_outcome
           (host_site addr_hypo_find_all_inheritors_hook
              (hypo_find_all_inheritors_hook E r)
              (\<lambda>p. call_find_all_inheritors E p r)
              find_all_inheritors_hook [] after_inheritors (loaded c e b ixs tbs s))
           (host_site addr_hypo_find_all_inheritors_hook
              (hypo_find_all_inheritors_hook E r)
              (\<lambda>p. call_find_all_inheritors E p r)
              find_all_inheritors_hook [] after_inheritors s)
       \<and> same_outcome
           (host_site addr_hypo_expand_child_rtentry_hook
              (hypo_expand_child_rtentry_hook E root parentrte parentRTindex parentrel
                 top_parentrc appinfos partdesc)
              (\<lambda>p. call_expand_child_rtentry E p root parentrte parentRTindex parentrel
                     top_parentrc appinfos partdesc)
              expand_child_rtentry_hook () after_expand (loaded c e b ixs tbs s))
           (host_site addr_hypo_expand_child_rtentry_hook
              (hypo_expand_child_rtentry_hook E root parentrte parentRTindex parentrel
                 top_parentrc appinfos partdesc)
              (\<lambda>p. call_expand_child_rtentry E p root parentrte parentRTindex parentrel
                     top_parentrc appinfos partdesc)
              expand_child_rtentry_hook () after_expand s)
       \<and> same_outcome
           (host_site addr_hypo_build_child_rtentry_hook
              (hypo_build_child_rtentry_hook E childrte parentOID childOID)
              (\<lambda>p. call_build_child_rtentry E p childrte parentOID childOID)
              build_child_rtentry_hook () after_build (loaded c e b ixs tbs s))
           (host_site addr_hypo_build_child_rtentry_hook
              (hypo_build_child_rtentry_hook E childrte parentOID childOID)
              (\<lambda>p. call_build_child_rtentry E p childrte parentOID childOID)
              build_child_rtentry_hook () after_build s))"
proof -
  let ?t = "loaded c e b ixs tbs s"
  from off have inactive: "\<not> isExplain ?t \<or> \<not> hypo_is_enabled ?t"
    by (simp add: loaded_simps)
  note deleg = inactive_hooks_delegate [OF inactive, unfolded loaded_simps]
  note fh = foreign [unfolded foreign_handlers_act_on_memory_def]
  note nl = unloaded [unfolded not_loaded_def]
  have mem: "memory ?t = memory s"
    by (simp add: loaded_simps)
  have site1: "same_outcome
           (host_site addr_hypo_get_relation_info_hook
              (hypo_get_relation_info_hook E root r inhparent rel)
              (\<lambda>p. call_get_relation_info E p root r inhparent rel)
              get_relation_info_hook () after_info (loaded c e b ixs tbs s))
           (host_site addr_hypo_get_relation_info_hook
              (hypo_get_relation_info_hook E root r inhparent rel)
              (\<lambda>p. call_get_relation_info E p root r inhparent rel)
              get_relation_info_hook () after_info s)"
    by (rule host_site_loaded [OF mem]) (use deleg fh nl in \<open>simp_all add: loaded_simps\<close>)
  have site2: "same_outcome
           (host_site addr_hypo_set_rel_pathlist_hook
              (hypo_set_rel_pathlist_hook E root rel rti rte)
              (\<lambda>p. call_set_rel_pathlist E p root rel rti rte)
              set_rel_pathlist_hook () after_pathlist (loaded c e b ixs tbs s))
           (host_site addr_hypo_set_rel_pathlist_hook
              (hypo_set_rel_pathlist_hook E root rel rti rte)
              (\<lambda>p. call_set_rel_pathlist E p root rel rti rte)
              set_rel_pathlist_hook () after_pathlist s)"
    by (rule host_site_loaded [OF mem]) (use deleg fh nl in \<open>simp_all add: loaded_simps\<close>)
  have site3: "same_outcome
           (host_site addr_hypo_RelationGetPartitionDesc_hook
              (hypo_RelationGetPartitionDesc_hook E r)
              (\<lambda>p. call_RelationGetPartitionDesc E p r)
              RelationGetPartitionDesc_hook None after_desc (loaded c e b ixs tbs s))
           (host_site addr_hypo_RelationGetPartitionDesc_hook
              (hypo_RelationGetPartitionDesc_hook E r)
              (\<lambda>p. call_RelationGetPartitionDesc E p r)
              RelationGetPartitionDesc_hook None after_desc s)"
    by (rule host_site_loaded [OF mem]) (use deleg fh nl in \<open>simp_all add: loaded_simps\<close>)
  have site4: "same_outcome
           (host_site addr_hypo_RelationGetPartitionKey_hook
              (hypo_RelationGetPartitionKey_hook E r)
              (\<lambda>p. call_RelationGetPartitionKey E p r)
              RelationGetPartitionKey_hook None after_key (loaded c e b ixs tbs s))
           (host_site addr_hypo_RelationGetPartitionKey_hook
              (hypo_RelationGetPartitionKey_hook E r)
              (\<lambda>p. call_RelationGetPartitionKey E p r)
              RelationGetPartitionKey_hook None after_key s)"
    by (rule host_site_loaded [OF mem]) (use deleg fh nl in \<open>simp_all add: loaded_simps\<close>)
  have site5: "same_outcome
           (host_site addr_hypo_skip_has_subclass_hook
              (hypo_skip_has_subclass_hook E r)
              (\<lambda>p. call_skip_has_subclass E p r)
              skip_has_subclass_hook False after_subclass (loaded c e b ixs tbs s))
           (host_site addr_hypo_skip_has_subclass_hook
              (hypo_skip_has_subclass_hook E r)
              (\<lambda>p. call_skip_has_subclass E p r)
              skip_has_subclass_hook False after_subclass s)"
    by (rule host_site_loaded [OF mem]) (use deleg fh nl in \<open>simp_all add: loaded_simps\<close>)
  have site6: "same_outcome
           (host_site addr_hypo_find_all_inheritors_hook
              (hypo_find_all_inheritors_hook E r)
              (\<lambda>p. call_find_all_inheritors E p r)
              find_all_inheritors_hook [] after_inheritors (loaded c e b ixs tbs s))
           (host_site addr_hypo_find_all_inheritors_hook
              (hypo_find_all_inheritors_hook E r)
              (\<lambda>p. call_find_all_inheritors E p r)
              find_all_inheritors_hook [] after_inheritors s)"
    by (rule host_site_loaded [OF mem]) (use deleg fh nl in \<open>simp_all add: loaded_simps\<close>)
  have site7: "same_outcome
           (host_site addr_hypo_expand_child_rtentry_hook
              (hypo_expand_child_rtentry_hook E root parentrte parentRTindex parentrel
                 top_parentrc appinfos partdesc)
              (\<lambda>p. call_expand_child_rtentry E p root parentrte parentRTindex parentrel
                     top_parentrc appinfos partdesc)
              expand_child_rtentry_hook () after_expand (loaded c e b ixs tbs s))
           (host_site addr_hypo_expand_child_rtentry_hook
              (hypo_expand_child_rtentry_hook E root parentrte parentRTindex parentrel
                 top_parentrc appinfos partdesc)
              (\<lambda>p. call_expand_child_rtentry E p root parentrte parentRTindex parentrel
                     top_parentrc appinfos partdesc)
              expand_child_rtentry_hook () after_expand s)"
    by (rule host_site_loaded [OF mem]) (use deleg fh nl in \<open>simp_all add: loaded_simps\<close>)
  have site8: "same_outcome
           (host_site addr_hypo_build_child_rtentry_hook
              (hypo_build_child_rtentry_hook E childrte parentOID childOID)
              (\<lambda>p. call_build_child_rtentry E p childrte parentOID childOID)
              build_child_rtentry_hook () after_build (loaded c e b ixs tbs s))
           (host_site addr_hypo_build_child_rtentry_hook
              (hypo_build_child_rtentry_hook E childrte parentOID childOID)
              (\<lambda>p. call_build_child_rtentry E p childrte parentOID childOID)
              build_child_rtentry_hook () after_build s)"
    by (rule host_site_loaded [OF mem]) (use deleg fh nl in \<open>simp_all add: loaded_simps\<close>)
  from site1 site2 site3 site4 site5 site6 site7 site8 show ?thesis
    by (simp add: deleg)
qed

text \<open>
  On the small host, during an explain with \<^verbatim>\<open>hypopg.enabled\<close> off and table 16384
  registered as hypothetical. The find-all-inheritors site reaches the other extension's
  handler and the has-subclass site the host's own look-up, loaded or not.
\<close>

theorem inactive_hooks_fall_through_witness:
  "not_loaded unloaded_backend
   \<and> foreign_handlers_act_on_memory demo_env
   \<and> isExplain (loaded None True False (hypoIndexes (demo_backend True False))
                  (hypoTables (demo_backend True False)) unloaded_backend)
   \<and> \<not> hypo_is_enabled (loaded None True False (hypoIndexes (demo_backend True False))
                           (hypoTables (demo_backend True False)) unloaded_backend)
   \<and> same_outcome
        (host_site addr_hypo_skip_has_subclass_hook (hypo_skip_has_subclass_hook demo_env 16384)
           (\<lambda>p. call_skip_has_subclass demo_env p 16384) skip_has_subclass_hook False
           (demo_after_has_subclass 16384)
           (loaded None True False (hypoIndexes (demo_backend True False))
              (hypoTables (demo_backend True False)) unloaded_backend))
        (host_site addr_hypo_skip_has_subclass_hook (hypo_skip_has_subclass_hook demo_env 16384)
           (\<lambda>p. call_skip_has_subclass demo_env p 16384) skip_has_subclass_hook False
           (demo_after_has_subclass 16384) unloaded_backend)
   \<and> same_outcome
        (host_site addr_hypo_find_all_inheritors_hook
           (hypo_find_all_inheritors_hook demo_env 16384)
           (\<lambda>p. call_find_all_inheritors demo_env p 16384) find_all_inheritors_hook []
           (demo_after_find_all_inheritors 16384)
           (loaded None True False (hypoIndexes (demo_backend True False))
              (hypoTables (demo_backend True False)) unloaded_backend))
        (host_site addr_hypo_find_all_inheritors_hook
           (hypo_find_all_inheritors_hook demo_env 16384)
           (\<lambda>p. call_find_all_inheritors demo_env p 16384) find_all_inheritors_hook []
           (demo_after_find_all_inheritors 16384) unloaded_backend)
   \<and> fst (host_site addr_hypo_skip_has_subclass_hook (hypo_skip_has_subclass_hook demo_env 16384)
           (\<lambda>p. call_skip_has_subclass demo_env p 16384) skip_has_subclass_hook False
           (demo_after_has_subclass 16384) unloaded_backend) = Inr True
   \<and> memory (snd (host_site addr_hypo_skip_has_subclass_hook
                     (hypo_skip_has_subclass_hook demo_env 16384)
                     (\<lambda>p. call_skip_has_subclass demo_env p 16384) skip_has_subclass_hook False
                     (demo_after_has_subclass 16384) unloaded_backend))
       = [host_default ''has_subclass'']
   \<and> fst (host_site addr_hypo_find_all_inheritors_hook
           (hypo_find_all_inheritors_hook demo_env 16384)
           (\<lambda>p. call_find_all_inheritors demo_env p 16384) find_all_inheritors_hook []
           (demo_after_find_all_inheritors 16384) unloaded_backend) = Inr [16384]
   \<and> memory (snd (host_site addr_hypo_find_all_inheritors_hook
                     (hypo_find_all_inheritors_hook demo_env 16384)
                     (\<lambda>p. call_find_all_inheritors demo_env p 16384) find_all_inheritors_hook []
                     (demo_after_find_all_inheritors 16384) unloaded_backend))
       = [handler_called (addr_other 7)]"
proof -
  have off: "\<not> True \<or> \<not> False"
    by simp
  have unloaded: "not_loaded unloaded_backend"
    by (simp add: not_loaded_def unloaded_backend_def)
  have flags: "isExplain (loaded None True False (hypoIndexes (demo_backend True False))
                  (hypoTables (demo_backend True False)) unloaded_backend)
     \<and> \<not> hypo_is_enabled (loaded None True False (hypoIndexes (demo_backend True False))
                           (hypoTables (demo_backend True False)) unloaded_backend)"
    by (simp add: loaded_simps)
  have runs: "host_site addr_hypo_skip_has_subclass_hook (hypo_skip_has_subclass_hook demo_env 16384)
           (\<lambda>p. call_skip_has_subclass demo_env p 16384) skip_has_subclass_hook False
           (demo_after_has_subclass 16384) unloaded_backend
        = (Inr True, unloaded_backend\<lparr>memory := [host_default ''has_subclass'']\<rparr>)"
    "host_site addr_hypo_find_all_inheritors_hook
           (hypo_find_all_inheritors_hook demo_env 16384)
           (\<lambda>p. call_find_all_inheritors demo_env p 16384) find_all_inheritors_hook []
           (demo_after_find_all_inheritors 16384) unloaded_backend
        = (Inr [16384], unloaded_backend\<lparr>memory := [handler_called (addr_other 7)]\<rparr>)"
    by (simp_all add: host_site_def unloaded_backend_def demo_after_has_subclass_def
        demo_after_find_all_inheritors_def demo_simps)
  note sites = inactive_hooks_fall_through
    [where e = True and b = False and s = unloaded_backend and E = demo_env
       and r = 16384 and after_subclass = "demo_after_has_subclass 16384"
       and after_inheritors = "demo_after_find_all_inheritors 16384"
       and ixs = "hypoIndexes (demo_backend True False)"
       and tbs = "hypoTables (demo_backend True False)" and c = None,
     OF off unloaded demo_env_foreign_handlers, THEN conjunct2]
  note subclass_site = sites [THEN conjunct2, THEN conjunct2, THEN conjunct2, THEN conjunct2,
      THEN conjunct1]
  note inheritors_site = sites [THEN conjunct2, THEN conjunct2, THEN conjunct2, THEN conjunct2,
      THEN conjunct2, THEN conjunct1]
  from subclass_site inheritors_site unloaded demo_env_foreign_handlers flags
  show ?thesis
    by (simp add: runs)
qed


subsection \<open>The relation-info hook inside the window\<close>

lemma indexes_loop_filter:
  "hypo_get_relation_info_indexes E root r inhparent rel relation entries
     = seq_all (map (hypo_injectHypotheticalIndex E root r inhparent rel relation)
                 (filter (\<lambda>entry. relid entry = r) entries))"
  by (induction entries) (simp_all add: seq_ret_left)

lemma hypo_get_relation_info_hook_opened:
  assumes "HYPO_ENABLED s"
    and "heap_open E r AccessShareLock (memory s) = (Inr relation, w)"
  shows "hypo_get_relation_info_hook E root r inhparent rel s
     = seq (if relkind (rd_rel relation) = RELKIND_RELATION
               \<or> relkind (rd_rel relation) = RELKIND_MATVIEW
            then on_memory (hypo_get_relation_info_indexes E root r inhparent rel relation
                              (hypoIndexes s))
            else ret ())
        (seq (on_memory (heap_close E relation AccessShareLock))
          (seq (if hypo_table_oid_is_hypothetical E (hypoTables s) r
                then on_memory (hypo_injectHypotheticalPartitioning E (hypoTables s) root r rel)
                else ret ())
               (delegate (prev_get_relation_info_hook s)
                  (\<lambda>p. call_get_relation_info E p root r inhparent rel) (ret ()))))
        (s\<lparr>memory := w\<rparr>)"
proof -
  let ?body = "\<lambda>relation.
          seq (if relkind (rd_rel relation) = RELKIND_RELATION
                  \<or> relkind (rd_rel relation) = RELKIND_MATVIEW
               then on_memory (hypo_get_relation_info_indexes E root r inhparent rel relation
                                 (hypoIndexes s))
               else ret ())
         (seq (on_memory (heap_close E relation AccessShareLock))
              (if hypo_table_oid_is_hypothetical E (hypoTables s) r
               then on_memory (hypo_injectHypotheticalPartitioning E (hypoTables s) root r rel)
               else ret ()))"
  let ?next = "delegate (prev_get_relation_info_hook s)
                  (\<lambda>p. call_get_relation_info E p root r inhparent rel) (ret ())"
  have "hypo_get_relation_info_hook E root r inhparent rel s
          = seq (bnd (on_memory (heap_open E r AccessShareLock)) ?body) ?next s"
    using assms(1) by (simp add: hypo_get_relation_info_hook_def delegate_def)
  also have "\<dots> = seq (?body relation) ?next (s\<lparr>memory := w\<rparr>)"
    using assms(2) by (simp add: seq_apply bnd_on_memory_Inr)
  finally show ?thesis
    by (simp only: seq_assoc)
qed

text \<open>
  C4. Inside the window, once the relation is opened and is an ordinary table or a
  materialized view, the hook calls \<^verbatim>\<open>hypo_injectHypotheticalIndex\<close> for the registry
  entries whose \<open>relid\<close> is the relation's identifier, for all of them, in the order of
  the registry list, and for no other entry; then it closes the relation, injects the
  partitioning if the identifier is a hypothetical table, and delegates. (An injection
  that raises ends the hook there.)
\<close>

theorem hypo_get_relation_info_hook_indexes:
  assumes "HYPO_ENABLED s"
    and "heap_open E r AccessShareLock (memory s) = (Inr relation, w)"
    and "relkind (rd_rel relation) = RELKIND_RELATION
         \<or> relkind (rd_rel relation) = RELKIND_MATVIEW"
  shows "hypo_get_relation_info_hook E root r inhparent rel s
     = seq (on_memory (seq_all (map (hypo_injectHypotheticalIndex E root r inhparent rel relation)
                                 (filter (\<lambda>entry. relid entry = r) (hypoIndexes s)))))
        (seq (on_memory (heap_close E relation AccessShareLock))
          (seq (if hypo_table_oid_is_hypothetical E (hypoTables s) r
                then on_memory (hypo_injectHypotheticalPartitioning E (hypoTables s) root r rel)
                else ret ())
               (delegate (prev_get_relation_info_hook s)
                  (\<lambda>p. call_get_relation_info E p root r inhparent rel) (ret ()))))
        (s\<lparr>memory := w\<rparr>)"
  using hypo_get_relation_info_hook_opened [OF assms(1,2), of root inhparent rel] assms(3)
  by (simp add: indexes_loop_filter)

text \<open>Table 16384 of the small host owns the first and the third of the three
  registered indexes; the log shows these two injected, in that order.\<close>

theorem hypo_get_relation_info_hook_indexes_witness:
  "HYPO_ENABLED (demo_backend True True)
   \<and> heap_open demo_env 16384 AccessShareLock (memory (demo_backend True True))
       = (Inr \<lparr>rd_id = 16384, rd_rel = \<lparr>relkind = CHR ''r'', reltablespace = 0,
                                        relpersistence = CHR ''p''\<rparr>\<rparr>, [heap_opened 16384])
   \<and> map oid (filter (\<lambda>entry. relid entry = 16384) (hypoIndexes (demo_backend True True)))
       = [100001, 100003]
   \<and> hypo_get_relation_info_hook demo_env 1 16384 False 2 (demo_backend True True)
       = (Inr (), (demo_backend True True)
            \<lparr>memory := [heap_opened 16384, index_injected 100001 16384,
                        index_injected 100003 16384, heap_closed 16384,
                        partitioning_injected 16384]\<rparr>)"
  using hypo_get_relation_info_hook_indexes [of "demo_backend True True" demo_env 16384
      "\<lparr>rd_id = 16384, rd_rel = \<lparr>relkind = CHR ''r'', reltablespace = 0,
                                  relpersistence = CHR ''p''\<rparr>\<rparr>" "[heap_opened 16384]" 1 False 2]
  by (simp add: demo_simps)



subsection \<open>Inheritance hooks inside the window\<close>

text \<open>
  C5. Inside the window, for the identifier of a hypothetical table found in the
  registry, \<open>hypo_find_all_inheritors_hook\<close> returns that identifier followed by the
  children \<^verbatim>\<open>hypo_find_inheritance_children\<close> gives for the table; the memory is
  unchanged and no previous handler is called.
\<close>

theorem hypo_find_all_inheritors_hook_hypothetical:
  assumes "HYPO_ENABLED s"
    and "hypo_table_oid_is_hypothetical E (hypoTables s) r"
    and "hypo_find_table E (hypoTables s) r = Inr table"
  shows "hypo_find_all_inheritors_hook E r s
           = (Inr (r # hypo_find_inheritance_children E (hypoTables s) table), s)"
  using assms by (simp add: hypo_find_all_inheritors_hook_def ret_def)

theorem hypo_find_all_inheritors_hook_hypothetical_witness:
  "HYPO_ENABLED (demo_backend True True)
   \<and> hypo_table_oid_is_hypothetical demo_env (hypoTables (demo_backend True True)) 16384
   \<and> hypo_find_all_inheritors_hook demo_env 16384 (demo_backend True True)
       = (Inr [16384, 200001, 200002], demo_backend True True)"
  using hypo_find_all_inheritors_hook_hypothetical [of "demo_backend True True" demo_env 16384
      "\<lparr>hypoTable_oid = 16384, parentid = 0,
        partkey = Some \<lparr>strategy = CHR ''r'', partattrs = [1]\<rparr>\<rparr>"]
  by (simp add: demo_simps)

text \<open>
  C6. Inside the window, \<open>hypo_skip_has_subclass_hook\<close> answers true for the
  identifier of a hypothetical table and leaves the memory unchanged; for any other
  identifier it is the previous handler, or the answer false when there is none.
\<close>

theorem hypo_skip_has_subclass_hook_active:
  assumes "HYPO_ENABLED s"
  shows "(hypo_table_oid_is_hypothetical E (hypoTables s) parentOID
            \<longrightarrow> hypo_skip_has_subclass_hook E parentOID s = (Inr True, s))
       \<and> (\<not> hypo_table_oid_is_hypothetical E (hypoTables s) parentOID
            \<longrightarrow> (\<forall>p. prev_skip_has_subclass_hook s = Some p
                   \<longrightarrow> hypo_skip_has_subclass_hook E parentOID s
                         = call_skip_has_subclass E p parentOID s)
              \<and> (prev_skip_has_subclass_hook s = None
                   \<longrightarrow> hypo_skip_has_subclass_hook E parentOID s = (Inr False, s)))"
  using assms by (simp add: hypo_skip_has_subclass_hook_def ret_def)

theorem hypo_skip_has_subclass_hook_active_witness:
  "HYPO_ENABLED (demo_backend True True)
   \<and> hypo_table_oid_is_hypothetical demo_env (hypoTables (demo_backend True True)) 16384
   \<and> hypo_skip_has_subclass_hook demo_env 16384 (demo_backend True True)
       = (Inr True, demo_backend True True)
   \<and> \<not> hypo_table_oid_is_hypothetical demo_env (hypoTables (demo_backend True True)) 16385
   \<and> hypo_skip_has_subclass_hook demo_env 16385 (demo_backend True True)
       = (Inr False, demo_backend True True)
   \<and> hypo_skip_has_subclass_hook demo_env 16385
         ((demo_backend True True)\<lparr>prev_skip_has_subclass_hook := Some (addr_other 7)\<rparr>)
       = call_skip_has_subclass demo_env (addr_other 7) 16385
           ((demo_backend True True)\<lparr>prev_skip_has_subclass_hook := Some (addr_other 7)\<rparr>)"
  using hypo_skip_has_subclass_hook_active [of "demo_backend True True" demo_env 16384]
    hypo_skip_has_subclass_hook_active [of "demo_backend True True" demo_env 16385]
    hypo_skip_has_subclass_hook_active
      [of "(demo_backend True True)\<lparr>prev_skip_has_subclass_hook := Some (addr_other 7)\<rparr>"
          demo_env 16385]
  by (simp add: demo_simps)

end
